theory Spec2Isabelle
  imports Complex_Main "HOL-Library.Log_Nat"
begin

section \<open>FitnessTracker: gamification and activity analysis\<close>

text \<open>
  A shallow embedding of the computations of the FitnessTracker repository that derive
  rank, XP reward, calorie estimates, streak, weekly chart rows and insights.

  Integer quantities (XP, stored calories, millisecond timestamps) are \<open>int\<close>. A
  JavaScript number that takes part in fractional arithmetic is an IEEE 754 double: its
  finite values are rationals, and each multiplication and division of the source is
  followed by rounding to the nearest double (\<open>fl\<close>), with overflow to an infinity. The
  sign of a zero is not modelled: the source never divides by a computed value, and
  \<open>Math.round\<close>, \<open>Math.max\<close> and \<open>||\<close> treat both zeros alike.
\<close>

subsection \<open>User model: rank lookup (\<open>UserSchema.methods.getLevel\<close>)\<close>

record level =
  rank :: string
  minXp :: int

text \<open>The constant table \<open>levels\<close> inside \<open>getLevel\<close>.\<close>

definition levels :: "level list" where
  "levels =
    [\<lparr>rank = ''E'', minXp = 0\<rparr>,
     \<lparr>rank = ''D'', minXp = 1000\<rparr>,
     \<lparr>rank = ''C'', minXp = 2500\<rparr>,
     \<lparr>rank = ''B'', minXp = 5000\<rparr>,
     \<lparr>rank = ''A'', minXp = 10000\<rparr>,
     \<lparr>rank = ''S'', minXp = 20000\<rparr>,
     \<lparr>rank = ''NATIONAL'', minXp = 50000\<rparr>]"

text \<open>
  The return expression
  \<^verbatim>\<open>[...levels].reverse().find(l => this.xp >= l.minXp) || levels[0]\<close>
  for an arbitrary table. \<open>None\<close> is JavaScript's \<open>undefined\<close>: \<open>find\<close> yields it when
  no element matches, and \<open>levels[0]\<close> yields it on an empty table.
\<close>

definition getLevelIn :: "level list \<Rightarrow> int \<Rightarrow> level option" where
  "getLevelIn lvs xp =
    (case List.find (\<lambda>l. xp \<ge> minXp l) (rev lvs) of
       Some l \<Rightarrow> Some l
     | None \<Rightarrow> (case lvs of [] \<Rightarrow> None | l0 # _ \<Rightarrow> Some l0))"

definition getLevel :: "int \<Rightarrow> level option" where
  "getLevel xp = getLevelIn levels xp"

text \<open>The table of the specification's scenario: a base tier, D and C.\<close>

definition scenarioTable :: "level list" where
  "scenarioTable =
    [\<lparr>rank = ''base'', minXp = 0\<rparr>,
     \<lparr>rank = ''D'', minXp = 1000\<rparr>,
     \<lparr>rank = ''C'', minXp = 2500\<rparr>]"

text \<open>Thresholds strictly ascending.\<close>

definition ascending :: "level list \<Rightarrow> bool" where
  "ascending lvs = sorted_wrt (\<lambda>a b. minXp a < minXp b) lvs"

subsection \<open>Calendar time\<close>

text \<open>
  A JavaScript \<open>Date\<close> is its timestamp in milliseconds since the epoch. The time zone of
  the host is a parameter: \<open>offsetAt z t\<close> is the offset of local time from UTC in force
  at the instant \<open>t\<close>, and \<open>offsetOfLocal z l\<close> the offset by which the local wall-clock
  time \<open>l\<close> is converted back to an instant (the two arguments of ECMAScript's
  \<open>LocalTZA\<close>). \<open>setHours0\<close> is \<^verbatim>\<open>d.setHours(0, 0, 0, 0)\<close>: the date's local time with the
  time of day cleared, converted back. \<open>getDay\<close> is \<^verbatim>\<open>d.getDay()\<close>, the local day of the week
  with 0 for Sunday (1 January 1970 was a Thursday).
\<close>

record zone =
  offsetAt :: "int \<Rightarrow> int"
  offsetOfLocal :: "int \<Rightarrow> int"

definition msPerDay :: int where
  "msPerDay = 1000 * 60 * 60 * 24"

definition localTime :: "zone \<Rightarrow> int \<Rightarrow> int" where
  "localTime z t = t + offsetAt z t"

definition calendarDay :: "zone \<Rightarrow> int \<Rightarrow> int" where
  "calendarDay z t = localTime z t div msPerDay"

definition setHours0 :: "zone \<Rightarrow> int \<Rightarrow> int" where
  "setHours0 z t =
    (let midnight = calendarDay z t * msPerDay in midnight - offsetOfLocal z midnight)"

definition getDay :: "zone \<Rightarrow> int \<Rightarrow> int" where
  "getDay z t = (calendarDay z t + 4) mod 7"

text \<open>A zone whose offset never changes.\<close>

definition fixedZone :: "int \<Rightarrow> zone" where
  "fixedZone tz = \<lparr>offsetAt = (\<lambda>t. tz), offsetOfLocal = (\<lambda>l. tz)\<rparr>"

text \<open>
  America/New_York around its change to daylight time on 8 March 2026: five hours behind
  UTC before 07:00 UTC (02:00 local time), four hours behind from then on. A wall-clock
  time in the skipped hour is converted with the offset before the change.
\<close>

definition newYork2026 :: zone where
  "newYork2026 =
    \<lparr>offsetAt = (\<lambda>t. if t < 1772953200000 then - 18000000 else - 14400000),
     offsetOfLocal = (\<lambda>l. if l < 1772953200000 - 14400000 then - 18000000 else - 14400000)\<rparr>"

subsection \<open>The user object\<close>

text \<open>
  The fields of the User model that the modelled code reads or writes. The server holds the
  stored document, the client a copy of it from the login response; a field that is
  \<open>undefined\<close> or \<open>null\<close> is \<open>None\<close>.
\<close>

record user =
  weight :: "rat option"
  streak :: "int option"
  lastWorkoutDate :: "int option"
  dailyCalorieGoal :: "int option"
  dailyBurnGoal :: "int option"

text \<open>
  \<^verbatim>\<open>v || d\<close> on a number that may be missing: \<open>undefined\<close> and \<open>0\<close> are falsy and give
  the default.
\<close>

definition orElse :: "'a::zero option \<Rightarrow> 'a \<Rightarrow> 'a" where
  "orElse v d = (case v of None \<Rightarrow> d | Some x \<Rightarrow> if x = 0 then d else x)"

text \<open>\<^verbatim>\<open>user?.field\<close> on a user object that may be \<open>null\<close>.\<close>

definition optField :: "('r \<Rightarrow> 'a option) \<Rightarrow> 'r option \<Rightarrow> 'a option" where
  "optField fld obj = (case obj of None \<Rightarrow> None | Some r \<Rightarrow> fld r)"

subsection \<open>IEEE 754 doubles\<close>







subsection \<open>Workout page: \<open>calculateEstimatedCalories\<close> and the XP preview\<close>





text \<open>
  The result of \<open>Math.round\<close>: an integer, an infinity, or \<open>NaN\<close>.
\<close>

datatype number = NaN | Number int | Infinity | NegInfinity

text \<open>\<open>Math.round\<close> rounds to the nearest integer, a tie towards \<open>+\<infinity>\<close>.\<close>

definition Math_round :: "rat \<Rightarrow> int" where
  "Math_round q = \<lfloor>q + 1 / 2\<rfloor>"




text \<open>
  The XP preview \<^verbatim>\<open>Math.max(5, Math.round(calculateEstimatedCalories() / 2))\<close> as a
  function of the estimate; \<open>NaN\<close> propagates.
\<close>

definition xpReward :: "number \<Rightarrow> number" where
  "xpReward estimate =
    (case estimate of
       NaN \<Rightarrow> NaN
     | Number c \<Rightarrow> Number (max 5 (Math_round (of_int c / 2)))
     | Infinity \<Rightarrow> Infinity
     | NegInfinity \<Rightarrow> Number 5)"

subsection \<open>Accuracy of an estimate\<close>




definition unitRoundoff :: rat where
  "unitRoundoff = 1 / 2 ^ 53"


subsection \<open>Dashboard: weekly chart rows\<close>

text \<open>
  The entries of \<open>stats.weekly.meals\<close> and \<open>stats.weekly.workouts\<close>; both carry a date.
\<close>

record dated =
  date :: int

record mealEntry = dated +
  calories :: int

record workoutEntry = dated +
  totalCalories :: int
  count :: int
  totalDuration :: int

record chartRow =
  day :: string
  intake :: int
  burned :: int
  net :: int
  workouts :: int
  duration :: int

definition weekDays :: "string list" where
  "weekDays = [''Mon'', ''Tue'', ''Wed'', ''Thu'', ''Fri'', ''Sat'', ''Sun'']"

text \<open>
  The two \<open>find\<close> calls of the \<open>map\<close> callback. The list is \<open>None\<close> when \<open>stats\<close>,
  \<open>stats.weekly\<close> or the list itself is missing. \<open>adjustedIndex\<close> is \<open>(index + 1) % 7\<close>.
\<close>

definition findByDay ::
  "zone \<Rightarrow> ('a dated_scheme) list option \<Rightarrow> nat \<Rightarrow> 'a dated_scheme option" where
  "findByDay z entries index =
    (case entries of
       None \<Rightarrow> None
     | Some es \<Rightarrow> List.find (\<lambda>e. getDay z (date e) = (int index + 1) mod 7) es)"

definition weeklyChartRow ::
  "zone \<Rightarrow> mealEntry list option \<Rightarrow> workoutEntry list option \<Rightarrow> nat \<times> string \<Rightarrow> chartRow" where
  "weeklyChartRow z meals wkts = (\<lambda>(index, dayLabel).
    (let mealData = findByDay z meals index;
         workoutData = findByDay z wkts index;
         intakeV = (case mealData of None \<Rightarrow> 0 | Some m \<Rightarrow> calories m);
         burnedV = (case workoutData of None \<Rightarrow> 0 | Some w \<Rightarrow> totalCalories w);
         netCalories = intakeV - burnedV
     in \<lparr>day = dayLabel, intake = intakeV, burned = burnedV, net = netCalories,
         workouts = (case workoutData of None \<Rightarrow> 0 | Some w \<Rightarrow> count w),
         duration = (case workoutData of None \<Rightarrow> 0 | Some w \<Rightarrow> totalDuration w)\<rparr>))"

definition weeklyChartData ::
  "zone \<Rightarrow> mealEntry list option \<Rightarrow> workoutEntry list option \<Rightarrow> chartRow list" where
  "weeklyChartData z meals wkts = map (weeklyChartRow z meals wkts) (enumerate 0 weekDays)"

text \<open>
  The English name of the day of the week that \<open>getDay\<close> numbers \<open>k\<close>: 0 is Sunday,
  6 is Saturday.
\<close>

definition dayName :: "int \<Rightarrow> string" where
  "dayName k = [''Sun'', ''Mon'', ''Tue'', ''Wed'', ''Thu'', ''Fri'', ''Sat''] ! nat k"

text \<open>
  What a row holds: with no record, an intake of 0 and no record of the list on the day of
  the week that the row's label names; with a record \<open>m\<close>, the calories of \<open>m\<close> as
  intake, \<open>m\<close> on the day that the label names, and no record before \<open>m\<close> in the list
  on that day.
\<close>

definition rowHolds :: "zone \<Rightarrow> mealEntry list \<Rightarrow> chartRow \<Rightarrow> mealEntry option \<Rightarrow> bool" where
  "rowHolds z ms row held =
    (case held of
       None \<Rightarrow> intake row = 0 \<and> (\<forall>e\<in>set ms. dayName (getDay z (date e)) \<noteq> day row)
     | Some m \<Rightarrow>
         intake row = calories m \<and> dayName (getDay z (date m)) = day row
         \<and> (\<exists>pre post. ms = pre @ m # post
               \<and> (\<forall>e\<in>set pre. dayName (getDay z (date e)) \<noteq> day row)))"

text \<open>The \<open>reduce\<close> calls over the rows.\<close>

definition totalIntake :: "chartRow list \<Rightarrow> int" where
  "totalIntake rows = foldl (\<lambda>acc d. acc + intake d) 0 rows"

definition totalBurned :: "chartRow list \<Rightarrow> int" where
  "totalBurned rows = foldl (\<lambda>acc d. acc + burned d) 0 rows"

definition totalWorkouts :: "chartRow list \<Rightarrow> int" where
  "totalWorkouts rows = foldl (\<lambda>acc d. acc + workouts d) 0 rows"

subsection \<open>Dashboard: \<open>getActivityInsights\<close>\<close>

record today =
  caloriesBurned :: "int option"
  caloriesConsumed :: "int option"

datatype severity = success | info | warning

text \<open>The message templates, each with the number it interpolates.\<close>

datatype message =
    GoalCrushed int
  | KeepGoing int
  | NoWorkoutToday
  | CalorieSurplus int
  | GreatDeficit int
  | ExcellentWeek int
  | GoodWeek int
  | DayStreak int

text \<open>An insight without its icon, which is presentation only.\<close>

record insight =
  kind :: severity
  msg :: message

text \<open>
  Each \<open>push\<close> appends to the list built so far. \<open>todayStats\<close> is \<open>stats?.today\<close>, and
  \<open>weekTotal\<close> the \<open>totalWorkouts\<close> of the enclosing component.
\<close>

definition getActivityInsights :: "user option \<Rightarrow> today option \<Rightarrow> int \<Rightarrow> insight list" where
  "getActivityInsights usr todayStats weekTotal =
    (let insights0 = [];
         dailyGoal = orElse (optField dailyBurnGoal usr) 500;
         calorieGoal = orElse (optField dailyCalorieGoal usr) 2000;
         todayBurned = orElse (optField caloriesBurned todayStats) 0;
         todayIntake = orElse (optField caloriesConsumed todayStats) 0;
         insights1 =
           (if todayBurned \<ge> dailyGoal then
              insights0 @ [\<lparr>kind = success, msg = GoalCrushed todayBurned\<rparr>]
            else if todayBurned > 0 then
              (let remaining = dailyGoal - todayBurned
               in insights0 @ [\<lparr>kind = info, msg = KeepGoing remaining\<rparr>])
            else insights0 @ [\<lparr>kind = warning, msg = NoWorkoutToday\<rparr>]);
         insights2 =
           (if todayIntake > 0 \<and> todayBurned > 0 then
              (let balance = todayIntake - todayBurned in
               if balance > 500 then
                 insights1 @ [\<lparr>kind = warning, msg = CalorieSurplus balance\<rparr>]
               else if balance < - 300 then
                 insights1 @ [\<lparr>kind = success, msg = GreatDeficit \<bar>balance\<bar>\<rparr>]
               else insights1)
            else insights1);
         insights3 =
           (if weekTotal \<ge> 5 then
              insights2 @ [\<lparr>kind = success, msg = ExcellentWeek weekTotal\<rparr>]
            else if weekTotal \<ge> 3 then
              insights2 @ [\<lparr>kind = info, msg = GoodWeek weekTotal\<rparr>]
            else insights2);
         insights4 =
           (case optField streak usr of
              None \<Rightarrow> insights3
            | Some n \<Rightarrow>
                if n \<ge> 7 then insights3 @ [\<lparr>kind = success, msg = DayStreak n\<rparr>]
                else insights3)
     in insights4)"

subsection \<open>Login: the streak correction of \<open>router.post('/login')\<close>\<close>

text \<open>
  The block under \<^verbatim>\<open>// Update streak\<close>, run after the password check succeeded, with
  \<open>now\<close> the value of \<^verbatim>\<open>new Date()\<close> and \<open>z\<close> the time zone of the server. \<open>Math.floor\<close>
  of the quotient of two integers is \<open>div\<close>. A \<open>null\<close> date is \<open>None\<close>.
\<close>

definition loginStreak :: "zone \<Rightarrow> int \<Rightarrow> user \<Rightarrow> user" where
  "loginStreak z now usr =
    (let today = setHours0 z now in
     case lastWorkoutDate usr of
       None \<Rightarrow> usr
     | Some d \<Rightarrow>
         (let lastWorkout = setHours0 z d;
              diffDays = (today - lastWorkout) div (1000 * 60 * 60 * 24)
          in if diffDays > 1 then usr\<lparr>streak := Some 0\<rparr> else usr))"

subsection \<open>Streak transition on a logged activity\<close>

record streakState =
  streakCount :: nat
  lastActivityDate :: "int option"

text \<open>
  Modelled from the spec: the write-path streak transition \<open>applyStreak\<close> of section 4.3.
  The route that logs a workout (\<open>server/routes/workouts.js\<close>) is not among the sources,
  only its caller \<open>workoutAPI.create\<close> is. Days are calendar-day numbers. The
  specification gives four rules and none for an activity dated before
  \<open>lastActivityDate\<close>; the model returns \<open>None\<close> there.
\<close>

definition applyStreak :: "streakState \<Rightarrow> int \<Rightarrow> streakState option" where
  "applyStreak s D =
    (case lastActivityDate s of
       None \<Rightarrow> Some \<lparr>streakCount = 1, lastActivityDate = Some D\<rparr>
     | Some L \<Rightarrow>
         if D = L then Some s
         else if D - L = 1 then Some \<lparr>streakCount = streakCount s + 1, lastActivityDate = Some D\<rparr>
         else if D - L > 1 then Some \<lparr>streakCount = 1, lastActivityDate = Some D\<rparr>
         else None)"

subsection \<open>The insight categories of the specification\<close>

text \<open>
  The four rule categories of section 4.5 of the specification, in its words and each as
  a function of its own inputs only, for comparison with \<open>getActivityInsights\<close>:
  goal progress (burned \<open>\<ge>\<close> goal: success; \<open>0 <\<close> burned \<open><\<close> goal: info with the
  remaining amount; burned \<open>= 0\<close>: warning), calorie balance (only if intake and burned
  are both positive: surplus above 500: warning; intake \<open>-\<close> burned below \<open>-300\<close>:
  success), weekly consistency (at least 5 workouts: success; 3 or 4: info) and streak
  (at least 7: success). A category whose condition is not met is the empty list.
\<close>

definition spec_goalProgress :: "int \<Rightarrow> int \<Rightarrow> insight list" where
  "spec_goalProgress goal b =
    (if b \<ge> goal then [\<lparr>kind = success, msg = GoalCrushed b\<rparr>]
     else if 0 < b \<and> b < goal then [\<lparr>kind = info, msg = KeepGoing (goal - b)\<rparr>]
     else if b = 0 then [\<lparr>kind = warning, msg = NoWorkoutToday\<rparr>]
     else [])"

definition spec_calorieBalance :: "int \<Rightarrow> int \<Rightarrow> insight list" where
  "spec_calorieBalance i b =
    (if i > 0 \<and> b > 0 then
       (if i - b > 500 then [\<lparr>kind = warning, msg = CalorieSurplus (i - b)\<rparr>]
        else if i - b < - 300 then [\<lparr>kind = success, msg = GreatDeficit \<bar>i - b\<bar>\<rparr>]
        else [])
     else [])"

definition spec_weeklyConsistency :: "int \<Rightarrow> insight list" where
  "spec_weeklyConsistency n =
    (if n \<ge> 5 then [\<lparr>kind = success, msg = ExcellentWeek n\<rparr>]
     else if 3 \<le> n \<and> n < 5 then [\<lparr>kind = info, msg = GoodWeek n\<rparr>]
     else [])"

definition spec_streak :: "int option \<Rightarrow> insight list" where
  "spec_streak st =
    (case st of
       None \<Rightarrow> []
     | Some n \<Rightarrow> if n \<ge> 7 then [\<lparr>kind = success, msg = DayStreak n\<rparr>] else [])"

subsection \<open>The calorie estimator of the specification\<close>










subsection \<open>Example data\<close>

text \<open>
  A user of 70 kg with a streak of 3, the default goals and a last workout on
  1 January 1970; catalog entries for duration-based and count-based activities, one
  with a rate of zero; two meal records on different days and two on the same day, in
  UTC; a user with a streak of 5 whose last workout was at noon of 7 March 2026 in New
  York, and a login at noon of 9 March 2026 there; a catalog for the specification's
  estimator and inputs to it.
\<close>

definition exampleUser :: user where
  "exampleUser = \<lparr>weight = Some 70, streak = Some 3, lastWorkoutDate = Some 1000,
     dailyCalorieGoal = Some 2000, dailyBurnGoal = Some 500\<rparr>"





definition utc :: zone where
  "utc = fixedZone 0"

definition twoDays :: "mealEntry list" where
  "twoDays = [\<lparr>date = 0, calories = 100\<rparr>, \<lparr>date = msPerDay, calories = 50\<rparr>]"

definition sameDay :: "mealEntry list" where
  "sameDay = [\<lparr>date = 0, calories = 100\<rparr>, \<lparr>date = 5, calories = 200\<rparr>]"

definition workoutTime :: int where
  "workoutTime = 1772902800000"

definition loginTime :: int where
  "loginTime = 1773072000000"

definition marchUser :: user where
  "marchUser = \<lparr>weight = Some 70, streak = Some 5, lastWorkoutDate = Some workoutTime,
     dailyCalorieGoal = Some 2000, dailyBurnGoal = Some 500\<rparr>"




subsection \<open>Rank lookup: lemmas\<close>

lemma find_Some_mem: "List.find P xs = Some t \<Longrightarrow> t \<in> set xs"
  by (induction xs) (auto split: if_splits)

lemma find_rev_greatest:
  "sorted_wrt (\<lambda>a b. minXp a < minXp b) lvs \<Longrightarrow>
   List.find (\<lambda>l. x \<ge> minXp l) (rev lvs) = Some t \<Longrightarrow>
   t \<in> set lvs \<and> minXp t \<le> x \<and> (\<forall>u\<in>set lvs. minXp u \<le> x \<longrightarrow> minXp u \<le> minXp t)"
proof (induction lvs rule: rev_induct)
  case Nil
  then show ?case by simp
next
  case (snoc y ys)
  have sorted_ys: "sorted_wrt (\<lambda>a b. minXp a < minXp b) ys"
    and below: "\<forall>u\<in>set ys. minXp u < minXp y"
    using snoc.prems(1) by (simp_all add: sorted_wrt_append)
  show ?case
  proof (cases "minXp y \<le> x")
    case True
    then have "t = y" using snoc.prems(2) by simp
    with True below show ?thesis by (auto simp: less_imp_le)
  next
    case False
    then have "List.find (\<lambda>l. x \<ge> minXp l) (rev ys) = Some t"
      using snoc.prems(2) by simp
    from snoc.IH [OF sorted_ys this] False show ?thesis by auto
  qed
qed

lemma ascending_inj:
  "sorted_wrt (\<lambda>a b. minXp a < minXp b) lvs \<Longrightarrow> u \<in> set lvs \<Longrightarrow> v \<in> set lvs \<Longrightarrow>
   minXp u = minXp v \<Longrightarrow> u = v"
proof (induction lvs)
  case Nil
  then show ?case by simp
next
  case (Cons a as)
  then show ?case by (auto simp: less_le)
qed

lemma getLevelIn_fallback:
  "\<forall>u\<in>set lvs. x < minXp u \<Longrightarrow> getLevelIn lvs x = (case lvs of [] \<Rightarrow> None | l0 # _ \<Rightarrow> Some l0)"
proof -
  assume "\<forall>u\<in>set lvs. x < minXp u"
  then have "List.find (\<lambda>l. x \<ge> minXp l) (rev lvs) = None"
    by (auto simp: find_None_iff)
  then show ?thesis by (simp add: getLevelIn_def)
qed

subsection \<open>Rank lookup: results\<close>

text \<open>
  Claim C1. For every XP value \<open>x \<ge> 0\<close> and every tier table with strictly ascending
  thresholds whose first tier has threshold 0, the lookup returns a tier of the table,
  that tier's threshold is the greatest one not exceeding \<open>x\<close>, and it is the only tier
  of the table with that property. On the scenario table (base 0, D 1000, C 2500) and on
  the table of the source, XP 1000 gives rank D and XP 999 gives the base rank.
\<close>

theorem getLevel_greatest_threshold:
  assumes "ascending lvs" and "lvs = base # rest" and "minXp base = 0" and "0 \<le> x"
  shows "(\<exists>t. getLevelIn lvs x = Some t \<and> t \<in> set lvs \<and> minXp t \<le> x
            \<and> (\<forall>u\<in>set lvs. minXp u \<le> x \<longrightarrow> minXp u \<le> minXp t)
            \<and> (\<forall>u\<in>set lvs. minXp u \<le> x \<and> (\<forall>v\<in>set lvs. minXp v \<le> x \<longrightarrow> minXp v \<le> minXp u)
                  \<longrightarrow> u = t))
       \<and> map_option rank (getLevelIn scenarioTable 1000) = Some ''D''
       \<and> map_option rank (getLevelIn scenarioTable 999) = Some ''base''
       \<and> getLevel 1000 = Some \<lparr>rank = ''D'', minXp = 1000\<rparr>
       \<and> getLevel 999 = Some \<lparr>rank = ''E'', minXp = 0\<rparr>"
proof -
  have sorted: "sorted_wrt (\<lambda>a b. minXp a < minXp b) lvs"
    using assms(1) by (simp add: ascending_def)
  have "base \<in> set lvs" "minXp base \<le> x"
    using assms(2,3,4) by simp_all
  then have "List.find (\<lambda>l. x \<ge> minXp l) (rev lvs) \<noteq> None"
    by (auto simp: find_None_iff)
  then obtain t where found: "List.find (\<lambda>l. x \<ge> minXp l) (rev lvs) = Some t"
    by auto
  then have res: "getLevelIn lvs x = Some t"
    by (simp add: getLevelIn_def)
  have great: "t \<in> set lvs" "minXp t \<le> x" "\<forall>u\<in>set lvs. minXp u \<le> x \<longrightarrow> minXp u \<le> minXp t"
    using find_rev_greatest [OF sorted found] by simp_all
  have uniq: "u = t"
    if "u \<in> set lvs" "minXp u \<le> x" "\<forall>v\<in>set lvs. minXp v \<le> x \<longrightarrow> minXp v \<le> minXp u" for u
  proof -
    have "minXp u \<le> minXp t" using great(3) that(1,2) by simp
    moreover have "minXp t \<le> minXp u" using that(3) great(1,2) by simp
    ultimately have "minXp u = minXp t" by simp
    with ascending_inj [OF sorted that(1) great(1)] show ?thesis by simp
  qed
  have general: "\<exists>t. getLevelIn lvs x = Some t \<and> t \<in> set lvs \<and> minXp t \<le> x
      \<and> (\<forall>u\<in>set lvs. minXp u \<le> x \<longrightarrow> minXp u \<le> minXp t)
      \<and> (\<forall>u\<in>set lvs. minXp u \<le> x \<and> (\<forall>v\<in>set lvs. minXp v \<le> x \<longrightarrow> minXp v \<le> minXp u)
            \<longrightarrow> u = t)"
    using res great uniq by blast
  have s1: "map_option rank (getLevelIn scenarioTable 1000) = Some ''D''"
    by (simp add: getLevelIn_def scenarioTable_def)
  have s2: "map_option rank (getLevelIn scenarioTable 999) = Some ''base''"
    by (simp add: getLevelIn_def scenarioTable_def)
  have s3: "getLevel 1000 = Some \<lparr>rank = ''D'', minXp = 1000\<rparr>"
    by (simp add: getLevel_def getLevelIn_def levels_def)
  have s4: "getLevel 999 = Some \<lparr>rank = ''E'', minXp = 0\<rparr>"
    by (simp add: getLevel_def getLevelIn_def levels_def)
  from general s1 s2 s3 s4 show ?thesis by blast
qed

theorem getLevel_greatest_threshold_witness:
  "ascending levels \<and> minXp (hd levels) = 0 \<and> (0::int) \<le> 1500
   \<and> (\<exists>t. getLevelIn levels 1500 = Some t \<and> t \<in> set levels \<and> minXp t \<le> 1500
          \<and> (\<forall>u\<in>set levels. minXp u \<le> 1500 \<longrightarrow> minXp u \<le> minXp t))"
proof -
  have a: "ascending levels" by (simp add: ascending_def levels_def)
  have b: "levels = hd levels # tl levels" by (simp add: levels_def)
  have c: "minXp (hd levels) = 0" by (simp add: levels_def)
  have d: "(0::int) \<le> 1500" by simp
  from getLevel_greatest_threshold [OF a b c d] a c d show ?thesis by blast
qed

text \<open>
  Claim C10. The rank lookup of the source is total on all integer XP values: every call
  returns a tier of the table, and when no threshold is less than or equal to the XP (in
  particular for negative XP) the result is the base tier, rank E with threshold 0.
\<close>

theorem getLevel_total:
  "(\<exists>t. getLevel x = Some t \<and> t \<in> set levels)
   \<and> ((\<forall>l\<in>set levels. x < minXp l) \<longrightarrow> getLevel x = Some \<lparr>rank = ''E'', minXp = 0\<rparr>)
   \<and> (x < 0 \<longrightarrow> getLevel x = Some \<lparr>rank = ''E'', minXp = 0\<rparr>)"
proof -
  have ne: "levels \<noteq> []" by (simp add: levels_def)
  have first: "(case levels of [] \<Rightarrow> None | l0 # _ \<Rightarrow> Some l0) = Some \<lparr>rank = ''E'', minXp = 0\<rparr>"
    by (simp add: levels_def)
  have mem0: "\<lparr>rank = ''E'', minXp = 0\<rparr> \<in> set levels" by (simp add: levels_def)
  have total: "\<exists>t. getLevel x = Some t \<and> t \<in> set levels"
  proof (cases "List.find (\<lambda>l. x \<ge> minXp l) (rev levels)")
    case None
    then have "getLevel x = Some \<lparr>rank = ''E'', minXp = 0\<rparr>"
      using first by (simp add: getLevel_def getLevelIn_def)
    with mem0 show ?thesis by simp
  next
    case (Some t)
    then have "t \<in> set levels" using find_Some_mem [of _ "rev levels" t] by simp
    moreover have "getLevel x = Some t"
      using Some by (simp add: getLevel_def getLevelIn_def)
    ultimately show ?thesis by simp
  qed
  have fb: "getLevel x = Some \<lparr>rank = ''E'', minXp = 0\<rparr>" if "\<forall>l\<in>set levels. x < minXp l"
    using getLevelIn_fallback [OF that] first by (simp add: getLevel_def)
  have neg: "getLevel x = Some \<lparr>rank = ''E'', minXp = 0\<rparr>" if "x < 0"
  proof -
    have "\<forall>l\<in>set levels. x < minXp l" using that by (simp add: levels_def)
    then show ?thesis by (rule fb)
  qed
  from total fb neg show ?thesis by blast
qed

theorem getLevel_total_witness:
  "(-5::int) < 0 \<and> getLevel (-5) = Some \<lparr>rank = ''E'', minXp = 0\<rparr>
   \<and> (\<exists>t. getLevel (-5) = Some t \<and> t \<in> set levels)"
proof -
  have neg: "(-5::int) < 0" by simp
  from getLevel_total [of "-5"] neg show ?thesis by blast
qed

subsection \<open>Streak: lemmas\<close>

text \<open>In a zone whose offset never changes the midnights of two days are whole days apart.\<close>

lemma diffDays_fixed:
  "(setHours0 (fixedZone tz) a - setHours0 (fixedZone tz) b) div (1000 * 60 * 60 * 24)
     = calendarDay (fixedZone tz) a - calendarDay (fixedZone tz) b"
proof -
  have "setHours0 (fixedZone tz) a - setHours0 (fixedZone tz) b
      = (calendarDay (fixedZone tz) a - calendarDay (fixedZone tz) b) * msPerDay"
    by (simp add: setHours0_def fixedZone_def Let_def algebra_simps)
  then show ?thesis by (simp add: msPerDay_def)
qed

lemma loginStreak_fixedZone:
  "loginStreak (fixedZone tz) now u =
    (case lastWorkoutDate u of
       None \<Rightarrow> u
     | Some d \<Rightarrow>
         if calendarDay (fixedZone tz) now - calendarDay (fixedZone tz) d > 1
         then u\<lparr>streak := Some 0\<rparr> else u)"
  unfolding loginStreak_def Let_def diffDays_fixed by (rule refl)

lemma applyStreak_positive: "applyStreak s D = Some s' \<Longrightarrow> s' = s \<or> 1 \<le> streakCount s'"
  by (auto simp: applyStreak_def split: option.splits if_splits)

subsection \<open>Streak: results\<close>

text \<open>
  Claim C5. The write-path transition on a new qualifying activity at day \<open>D\<close>: with no
  last activity date the streak becomes 1; on the same day as the last activity the state
  is unchanged; one day after it the streak grows by 1; more than one day after it the
  streak is reset to 1, not to 0. In the three cases other than the same day the last
  activity date becomes \<open>D\<close>.
\<close>

theorem applyStreak_transition:
  "(lastActivityDate s = None \<longrightarrow>
      applyStreak s D = Some \<lparr>streakCount = 1, lastActivityDate = Some D\<rparr>)
   \<and> (lastActivityDate s = Some D \<longrightarrow> applyStreak s D = Some s)
   \<and> (lastActivityDate s = Some L \<and> D - L = 1 \<longrightarrow>
        applyStreak s D = Some \<lparr>streakCount = streakCount s + 1, lastActivityDate = Some D\<rparr>)
   \<and> (lastActivityDate s = Some L \<and> D - L > 1 \<longrightarrow>
        applyStreak s D = Some \<lparr>streakCount = 1, lastActivityDate = Some D\<rparr>)"
proof (intro conjI impI)
  assume "lastActivityDate s = None"
  then show "applyStreak s D = Some \<lparr>streakCount = 1, lastActivityDate = Some D\<rparr>"
    by (simp add: applyStreak_def)
next
  assume "lastActivityDate s = Some D"
  then show "applyStreak s D = Some s"
    by (simp add: applyStreak_def)
next
  assume "lastActivityDate s = Some L \<and> D - L = 1"
  then have "lastActivityDate s = Some L" "D \<noteq> L" "D - L = 1" by simp_all
  then show "applyStreak s D
      = Some \<lparr>streakCount = streakCount s + 1, lastActivityDate = Some D\<rparr>"
    by (simp add: applyStreak_def)
next
  assume "lastActivityDate s = Some L \<and> D - L > 1"
  then have "lastActivityDate s = Some L" "D \<noteq> L" "D - L \<noteq> 1" "D - L > 1" by simp_all
  then show "applyStreak s D = Some \<lparr>streakCount = 1, lastActivityDate = Some D\<rparr>"
    by (simp add: applyStreak_def)
qed

theorem applyStreak_transition_witness:
  "applyStreak \<lparr>streakCount = 0, lastActivityDate = None\<rparr> 10
     = Some \<lparr>streakCount = 1, lastActivityDate = Some 10\<rparr>
   \<and> applyStreak \<lparr>streakCount = 4, lastActivityDate = Some 10\<rparr> 10
     = Some \<lparr>streakCount = 4, lastActivityDate = Some 10\<rparr>
   \<and> applyStreak \<lparr>streakCount = 4, lastActivityDate = Some 9\<rparr> 10
     = Some \<lparr>streakCount = 5, lastActivityDate = Some 10\<rparr>
   \<and> applyStreak \<lparr>streakCount = 4, lastActivityDate = Some 7\<rparr> 10
     = Some \<lparr>streakCount = 1, lastActivityDate = Some 10\<rparr>"
  using applyStreak_transition [of "\<lparr>streakCount = 0, lastActivityDate = None\<rparr>" 10 0]
    applyStreak_transition [of "\<lparr>streakCount = 4, lastActivityDate = Some 10\<rparr>" 10 10]
    applyStreak_transition [of "\<lparr>streakCount = 4, lastActivityDate = Some 9\<rparr>" 10 9]
    applyStreak_transition [of "\<lparr>streakCount = 4, lastActivityDate = Some 7\<rparr>" 10 7]
  by simp

text \<open>
  Claim C6. On login no activity is logged, and a streak whose last workout lies more than
  one calendar day back is to be reset to 0. The handler measures the gap as the whole
  multiples of 24 hours between the two local midnights, so on a server in a zone with
  daylight saving it misses a gap of two days that contains the change to daylight time:
  for a last workout on 7 March 2026 and a login on 9 March 2026 in New York the
  midnights are 47 hours apart, the computed difference is 1, and the streak of 5 is kept.
  In a zone without such changes the reset happens exactly when the gap exceeds one day
  (\<open>loginStreak_fixedZone\<close>).
\<close>

theorem loginStreak_daylight_saving:
  "lastWorkoutDate marchUser = Some workoutTime
   \<and> calendarDay newYork2026 loginTime - calendarDay newYork2026 workoutTime = 2
   \<and> setHours0 newYork2026 loginTime - setHours0 newYork2026 workoutTime = 47 * (60 * 60 * 1000)
   \<and> loginStreak newYork2026 loginTime marchUser = marchUser
   \<and> streak (loginStreak newYork2026 loginTime marchUser) = Some 5"
proof -
  have a: "lastWorkoutDate marchUser = Some workoutTime" by (simp add: marchUser_def)
  have b: "calendarDay newYork2026 loginTime - calendarDay newYork2026 workoutTime = 2"
    by (simp add: calendarDay_def localTime_def newYork2026_def loginTime_def workoutTime_def
        msPerDay_def)
  have c: "setHours0 newYork2026 loginTime - setHours0 newYork2026 workoutTime
      = 47 * (60 * 60 * 1000)"
    by (simp add: setHours0_def calendarDay_def localTime_def newYork2026_def loginTime_def
        workoutTime_def msPerDay_def Let_def)
  have d: "loginStreak newYork2026 loginTime marchUser = marchUser"
    using c by (simp add: loginStreak_def a Let_def)
  have e: "streak marchUser = Some 5" by (simp add: marchUser_def)
  from a b c d e show ?thesis by simp
qed

subsection \<open>Doubles: lemmas\<close>












subsection \<open>Calorie estimate: lemmas\<close>

lemma Math_round_round: "Math_round q = round q"
  by (simp add: Math_round_def round_def)

lemma Math_round_half: "Math_round (of_int c / 2) = (c + 1) div 2"
proof -
  have h: "(of_int c / 2 + 1 / 2 :: rat) = of_int (c + 1) / of_int 2"
    by (simp add: field_simps)
  show ?thesis
    unfolding Math_round_def h by (rule floor_divide_of_int_eq)
qed

lemma unitRoundoff_nonneg: "0 \<le> unitRoundoff"
  by (simp add: unitRoundoff_def)











subsection \<open>Calorie estimate: results\<close>







subsection \<open>The estimator of the specification: results\<close>



subsection \<open>XP reward: results\<close>

text \<open>
  Claim C2. The XP reward for an estimate of \<open>c\<close> calories is
  \<open>max 5 (round (c / 2))\<close>, that is \<open>max 5 ((c + 1) div 2)\<close>, and so it is at least 5
  for every \<open>c\<close>, in particular for every \<open>c \<ge> 0\<close>.
\<close>

theorem xpReward_floor:
  "xpReward (Number c) = Number (max 5 (round (of_int c / 2 :: rat)))
   \<and> xpReward (Number c) = Number (max 5 ((c + 1) div 2))
   \<and> (\<exists>k. xpReward (Number c) = Number k \<and> 5 \<le> k)"
proof -
  have a: "xpReward (Number c) = Number (max 5 (round (of_int c / 2 :: rat)))"
    by (simp add: xpReward_def Math_round_round)
  have b: "xpReward (Number c) = Number (max 5 ((c + 1) div 2))"
    by (simp add: xpReward_def Math_round_half)
  have "(5::int) \<le> max 5 ((c + 1) div 2)" by simp
  with a b show ?thesis by simp
qed

theorem xpReward_floor_witness:
  "xpReward (Number 0) = Number 5 \<and> xpReward (Number 540) = Number 270
   \<and> xpReward (Number 11) = Number 6"
  using xpReward_floor [of 0, THEN conjunct2, THEN conjunct1]
    xpReward_floor [of 540, THEN conjunct2, THEN conjunct1]
    xpReward_floor [of 11, THEN conjunct2, THEN conjunct1]
  by simp

subsection \<open>Weekly chart rows: lemmas\<close>

lemma getDay_range: "0 \<le> getDay z t \<and> getDay z t < 7"
  by (simp add: getDay_def)

lemma getDay_mem: "getDay z t \<in> {0, 1, 2, 3, 4, 5, 6}"
proof -
  have "0 \<le> getDay z t" "getDay z t < 7" using getDay_range by simp_all
  then show ?thesis by (simp; arith)
qed

text \<open>With pairwise different keys, \<open>find\<close> by the key of an element returns that element.\<close>

lemma find_distinct_key:
  "distinct (map k xs) \<Longrightarrow> m \<in> set xs \<Longrightarrow> List.find (\<lambda>e. k e = k m) xs = Some m"
  by (induction xs) auto

lemma find_key_None: "d \<notin> k ` set xs \<Longrightarrow> List.find (\<lambda>e. k e = d) xs = None"
  by (auto simp: find_None_iff)

text \<open>
  Summing, over a finite set of keys that covers the list, the value of the element found
  for each key gives the sum over the list.
\<close>

lemma sum_by_key:
  "finite A \<Longrightarrow> distinct (map k xs) \<Longrightarrow> k ` set xs \<subseteq> A \<Longrightarrow>
   (\<Sum>d\<in>A. case List.find (\<lambda>e. k e = d) xs of None \<Rightarrow> 0 | Some m \<Rightarrow> (v m :: int))
     = sum_list (map v xs)"
proof (induction xs)
  case Nil
  then show ?case by simp
next
  case (Cons a as)
  let ?G = "\<lambda>d. case List.find (\<lambda>e. k e = d) as of None \<Rightarrow> 0 | Some m \<Rightarrow> v m"
  have inA: "k a \<in> A" using Cons.prems(3) by simp
  have notin: "k a \<notin> k ` set as" using Cons.prems(2) by simp
  have G0: "?G (k a) = 0" using find_key_None [OF notin] by simp
  have IH: "(\<Sum>d\<in>A. ?G d) = sum_list (map v as)"
    using Cons.IH Cons.prems by simp
  have "(\<Sum>d\<in>A. case List.find (\<lambda>e. k e = d) (a # as) of None \<Rightarrow> 0 | Some m \<Rightarrow> v m)
      = (\<Sum>d\<in>A. if d = k a then v a else ?G d)"
    by (rule sum.cong) auto
  also have "\<dots> = v a + (\<Sum>d\<in>A - {k a}. ?G d)"
    using Cons.prems(1) inA by (simp add: sum.remove [of A "k a"])
  also have "(\<Sum>d\<in>A - {k a}. ?G d) = (\<Sum>d\<in>A. ?G d)"
    using Cons.prems(1) inA G0 by (simp add: sum.remove [of A "k a" ?G])
  finally show ?case using IH by simp
qed

text \<open>The total of the seven rows, slot by slot: Monday looks for day 1, Sunday for day 0.\<close>

lemma totalIntake_slots:
  "totalIntake (weeklyChartData z (Some ms) wk) =
     (\<Sum>d\<in>{0, 1, 2, 3, 4, 5, 6}.
        case List.find (\<lambda>e. getDay z (date e) = d) ms of None \<Rightarrow> 0 | Some m \<Rightarrow> calories m)"
  by (simp add: totalIntake_def weeklyChartData_def weeklyChartRow_def weekDays_def
      enumerate_eq_zip findByDay_def upt_rec Let_def)

lemma chart_days: "map day (weeklyChartData z meals wk) = weekDays"
  by (simp add: weeklyChartData_def weeklyChartRow_def weekDays_def enumerate_eq_zip upt_rec
      Let_def)

lemma slot_of_day:
  assumes "0 \<le> k" and "k < 7"
  shows "(int (nat ((k + 6) mod 7)) + 1) mod 7 = k" and "nat ((k + 6) mod 7) < 7"
proof -
  have e: "int (nat ((k + 6) mod 7)) = (k + 6) mod 7" by simp
  have "((k + 6) mod 7 + 1) mod 7 = k" using assms by presburger
  then show "(int (nat ((k + 6) mod 7)) + 1) mod 7 = k" by (simp only: e)
  have "(k + 6) mod 7 < 7" by simp
  then show "nat ((k + 6) mod 7) < 7" by linarith
qed

lemma day_of_slot:
  assumes "j < 7" and "k = (int j + 1) mod 7"
  shows "j = nat ((k + 6) mod 7)"
proof -
  have "int j < 7" "0 \<le> int j" using assms(1) by simp_all
  then have "((int j + 1) mod 7 + 6) mod 7 = int j" by presburger
  then show ?thesis using assms(2) by simp
qed

lemma slot_unique:
  assumes "distinct (map (\<lambda>m. getDay z (date m)) ms)" and "m \<in> set ms"
  shows "\<exists>!i. i < 7 \<and> findByDay z (Some ms) i = Some m"
proof -
  let ?k = "\<lambda>m. getDay z (date m)"
  let ?i = "nat ((?k m + 6) mod 7)"
  have rng: "0 \<le> ?k m" "?k m < 7" using getDay_range by simp_all
  note sd = slot_of_day [OF rng]
  have "findByDay z (Some ms) ?i = List.find (\<lambda>e. ?k e = (int ?i + 1) mod 7) ms"
    by (simp only: findByDay_def option.case)
  also have "\<dots> = List.find (\<lambda>e. ?k e = ?k m) ms"
    by (simp only: sd(1))
  also have "\<dots> = Some m"
    by (rule find_distinct_key [OF assms])
  finally have "findByDay z (Some ms) ?i = Some m" .
  moreover have "j = ?i" if "j < 7" and "findByDay z (Some ms) j = Some m" for j
  proof -
    have "?k m = (int j + 1) mod 7"
      using that(2) by (auto simp: findByDay_def find_Some_iff)
    with that(1) show ?thesis by (rule day_of_slot)
  qed
  ultimately show ?thesis using sd(2) by blast
qed

lemma intake_sum:
  assumes "distinct (map (\<lambda>m. getDay z (date m)) ms)"
  shows "totalIntake (weeklyChartData z (Some ms) wk) = sum_list (map calories ms)"
proof -
  have "(\<lambda>m. getDay z (date m)) ` set ms \<subseteq> {0, 1, 2, 3, 4, 5, 6}"
    using getDay_mem by blast
  from sum_by_key [OF _ assms this, of calories] show ?thesis
    by (simp only: totalIntake_slots finite_insert finite.emptyI)
qed


lemma find_first:
  "List.find P xs = Some m \<Longrightarrow> \<exists>pre post. xs = pre @ m # post \<and> P m \<and> (\<forall>e\<in>set pre. \<not> P e)"
proof (induction xs)
  case Nil
  then show ?case by simp
next
  case (Cons a as)
  show ?case
  proof (cases "P a")
    case True
    with Cons.prems have "a = m" by simp
    with True have "a # as = [] @ m # as \<and> P m \<and> (\<forall>e\<in>set []. \<not> P e)" by simp
    then show ?thesis by blast
  next
    case False
    with Cons.prems have "List.find P as = Some m" by simp
    from Cons.IH [OF this] obtain pre post
      where "as = pre @ m # post" "P m" "\<forall>e\<in>set pre. \<not> P e" by blast
    with False have "a # as = (a # pre) @ m # post \<and> P m \<and> (\<forall>e\<in>set (a # pre). \<not> P e)"
      by simp
    then show ?thesis by blast
  qed
qed

lemma slot_cases: "i < 7 \<Longrightarrow> i \<in> {0, 1, 2, 3, 4, 5, 6::nat}"
  by auto

lemma label_slot:
  assumes "i < 7"
  shows "(dayName (getDay z t) = weekDays ! i) = (getDay z t = (int i + 1) mod 7)"
proof -
  have k: "getDay z t \<in> {0, 1, 2, 3, 4, 5, 6}" by (rule getDay_mem)
  have i: "i \<in> {0, 1, 2, 3, 4, 5, 6}" using assms by (rule slot_cases)
  show ?thesis
    using k i by (auto simp: dayName_def weekDays_def)
qed

lemma row_nth:
  "i < 7 \<Longrightarrow> weeklyChartData z meals wk ! i = weeklyChartRow z meals wk (i, weekDays ! i)"
proof -
  assume "i < 7"
  then have len: "i < length weekDays" by (simp add: weekDays_def)
  then have "weeklyChartData z meals wk ! i
      = weeklyChartRow z meals wk (enumerate 0 weekDays ! i)"
    by (simp add: weeklyChartData_def)
  then show ?thesis using len by (simp add: nth_enumerate_eq)
qed

lemma row_fields:
  "day (weeklyChartRow z (Some ms) wk (i, lbl)) = lbl"
  "intake (weeklyChartRow z (Some ms) wk (i, lbl))
     = (case findByDay z (Some ms) i of None \<Rightarrow> 0 | Some m \<Rightarrow> calories m)"
  by (simp_all add: weeklyChartRow_def Let_def)

lemma row_holds:
  assumes "i < 7"
  shows "rowHolds z ms (weeklyChartData z (Some ms) wk ! i) (findByDay z (Some ms) i)"
proof (cases "findByDay z (Some ms) i")
  case None
  then have "\<forall>e\<in>set ms. getDay z (date e) \<noteq> (int i + 1) mod 7"
    by (auto simp: findByDay_def find_None_iff)
  then have "\<forall>e\<in>set ms. dayName (getDay z (date e)) \<noteq> weekDays ! i"
    using label_slot [OF assms, of z] by blast
  then show ?thesis
    using None by (simp add: rowHolds_def row_nth [OF assms] row_fields)
next
  case (Some m)
  then have "List.find (\<lambda>e. getDay z (date e) = (int i + 1) mod 7) ms = Some m"
    by (simp add: findByDay_def)
  from find_first [OF this] obtain pre post where f: "ms = pre @ m # post"
      "getDay z (date m) = (int i + 1) mod 7"
      "\<forall>e\<in>set pre. getDay z (date e) \<noteq> (int i + 1) mod 7"
    by blast
  have "dayName (getDay z (date m)) = weekDays ! i"
    using f(2) label_slot [OF assms, of z "date m"] by blast
  moreover have "\<forall>e\<in>set pre. dayName (getDay z (date e)) \<noteq> weekDays ! i"
    using f(3) label_slot [OF assms, of z] by blast
  ultimately show ?thesis
    using Some f(1) by (auto simp: rowHolds_def row_nth [OF assms] row_fields)
qed

subsection \<open>Weekly chart rows: results\<close>

text \<open>
  Claim C7, as amended. The chart has the seven rows Mon to Sun, and the row of a day of
  the week holds the first meal record of the list whose local day of the week is that
  day, with its calories as the row's intake, or nothing and an intake of 0 when there is
  no such record. When no two meal records fall on the same day of the week (one record
  per day), every record is the one held by exactly one of the seven rows, and the sum of
  the rows' intake equals the sum of the calories of all meal records.
\<close>

theorem weeklyChartData_partition:
  "map day (weeklyChartData z (Some ms) wk) = weekDays
   \<and> (\<forall>i<7. rowHolds z ms (weeklyChartData z (Some ms) wk ! i) (findByDay z (Some ms) i))
   \<and> (distinct (map (\<lambda>m. getDay z (date m)) ms) \<longrightarrow>
        (\<forall>m\<in>set ms. \<exists>!i. i < 7 \<and> findByDay z (Some ms) i = Some m)
        \<and> totalIntake (weeklyChartData z (Some ms) wk) = sum_list (map calories ms))"
  using chart_days [of z "Some ms" wk] row_holds [of _ z ms wk] slot_unique [of z ms]
    intake_sum [of z ms wk]
  by blast

theorem weeklyChartData_partition_witness:
  "distinct (map (\<lambda>m. getDay utc (date m)) twoDays)
   \<and> totalIntake (weeklyChartData utc (Some twoDays) None) = 150
   \<and> rowHolds utc twoDays (weeklyChartData utc (Some twoDays) None ! 3)
        (findByDay utc (Some twoDays) 3)"
proof -
  have d: "distinct (map (\<lambda>m. getDay utc (date m)) twoDays)"
    by (simp add: twoDays_def getDay_def calendarDay_def localTime_def utc_def fixedZone_def
        msPerDay_def)
  have v: "sum_list (map calories twoDays) = 150" by (simp add: twoDays_def)
  have three: "(3::nat) < 7" by simp
  from weeklyChartData_partition [of utc twoDays None] d v three show ?thesis by simp
qed

text \<open>
  Two meal records on the same day: only the first one is found, so the rows add up to
  100 while the records add up to 300.
\<close>

theorem weeklyChartData_partition_counterexample:
  "totalIntake (weeklyChartData utc (Some sameDay) None) \<noteq> sum_list (map calories sameDay)"
  by (simp add: totalIntake_def weeklyChartData_def weeklyChartRow_def weekDays_def
      enumerate_eq_zip findByDay_def upt_rec getDay_def calendarDay_def localTime_def utc_def
      fixedZone_def msPerDay_def Let_def sameDay_def)

subsection \<open>Insights: lemmas\<close>

lemma insights_concat:
  "0 \<le> orElse (optField caloriesBurned td) 0 \<Longrightarrow>
   getActivityInsights usr td n =
     spec_goalProgress (orElse (optField dailyBurnGoal usr) 500)
       (orElse (optField caloriesBurned td) 0)
     @ spec_calorieBalance (orElse (optField caloriesConsumed td) 0)
         (orElse (optField caloriesBurned td) 0)
     @ spec_weeklyConsistency n
     @ spec_streak (optField streak usr)"
  by (auto simp: getActivityInsights_def Let_def spec_goalProgress_def spec_calorieBalance_def
      spec_weeklyConsistency_def spec_streak_def split: option.splits)

lemma insights_only_progress:
  "\<not> (orElse (optField caloriesConsumed td) 0 > 0 \<and> orElse (optField caloriesBurned td) 0 > 0) \<Longrightarrow>
   n < 3 \<Longrightarrow> optField streak usr = None \<or> (\<exists>k. optField streak usr = Some k \<and> k < 7) \<Longrightarrow>
   length (getActivityInsights usr td n) = 1"
  by (auto simp: getActivityInsights_def Let_def split: option.splits)

lemma insights_scenario:
  "streak u = Some 3 \<Longrightarrow> dailyBurnGoal u = None \<or> (\<exists>g. dailyBurnGoal u = Some g \<and> 0 \<le> g) \<Longrightarrow>
   getActivityInsights (Some u) (Some \<lparr>caloriesBurned = Some 0, caloriesConsumed = Some 0\<rparr>) 2
     = [\<lparr>kind = warning, msg = NoWorkoutToday\<rparr>]"
  by (auto simp: getActivityInsights_def Let_def orElse_def optField_def split: option.splits)

subsection \<open>Insights: results\<close>

text \<open>
  Claim C8. The insight list is the concatenation of the four categories of the
  specification, each computed from its own inputs and empty when its condition is not
  met; when the balance, weekly and streak conditions are not met the list has the single
  goal-progress insight. For today's burned 0 and intake 0, a weekly workout count of 2
  and a streak of 3, with a daily burn goal that is absent or not negative, the list is
  exactly the no-workout-today warning.
\<close>

theorem getActivityInsights_categories:
  "(0 \<le> orElse (optField caloriesBurned td) 0 \<longrightarrow>
      getActivityInsights usr td n =
        spec_goalProgress (orElse (optField dailyBurnGoal usr) 500)
          (orElse (optField caloriesBurned td) 0)
        @ spec_calorieBalance (orElse (optField caloriesConsumed td) 0)
            (orElse (optField caloriesBurned td) 0)
        @ spec_weeklyConsistency n
        @ spec_streak (optField streak usr))
   \<and> (\<not> (orElse (optField caloriesConsumed td) 0 > 0 \<and> orElse (optField caloriesBurned td) 0 > 0)
        \<and> n < 3 \<and> (optField streak usr = None \<or> (\<exists>k. optField streak usr = Some k \<and> k < 7)) \<longrightarrow>
        length (getActivityInsights usr td n) = 1)
   \<and> (streak u = Some 3 \<and> (dailyBurnGoal u = None \<or> (\<exists>g. dailyBurnGoal u = Some g \<and> 0 \<le> g)) \<longrightarrow>
        getActivityInsights (Some u)
          (Some \<lparr>caloriesBurned = Some 0, caloriesConsumed = Some 0\<rparr>) 2
          = [\<lparr>kind = warning, msg = NoWorkoutToday\<rparr>])"
  using insights_concat [of td usr n] insights_only_progress [of td n usr] insights_scenario [of u]
  by blast

theorem getActivityInsights_categories_witness:
  "streak exampleUser = Some 3 \<and> dailyBurnGoal exampleUser = Some 500
   \<and> getActivityInsights (Some exampleUser)
        (Some \<lparr>caloriesBurned = Some 0, caloriesConsumed = Some 0\<rparr>) 2
        = [\<lparr>kind = warning, msg = NoWorkoutToday\<rparr>]"
proof -
  have a: "streak exampleUser = Some 3" by (simp add: exampleUser_def)
  have b: "dailyBurnGoal exampleUser = Some 500" by (simp add: exampleUser_def)
  have c: "(0::int) \<le> 500" by simp
  note scen = getActivityInsights_categories
    [of "Some \<lparr>caloriesBurned = Some 0, caloriesConsumed = Some 0\<rparr>" "Some exampleUser" 2
        exampleUser, THEN conjunct2, THEN conjunct2]
  from scen a b c show ?thesis by blast
qed

end
